theory Spec2Isabelle
  imports Complex_Main
begin

section \<open>Floating-point values of the data frames\<close>

text \<open>
  The columns of the pandas data frames hold float64 values. They are modelled as exact
  reals extended by the special values the source produces without raising: the missing
  value NaN and the two infinities (\<open>Inf True\<close> is \<open>+inf\<close>, \<open>Inf False\<close> is \<open>-inf\<close>).
  Rounding and the sign of zero are not modelled.
\<close>

datatype fnum = Fin real | NaN | Inf bool

fun fneg :: "fnum \<Rightarrow> fnum" where
  "fneg (Fin a) = Fin (- a)"
| "fneg NaN = NaN"
| "fneg (Inf s) = Inf (\<not> s)"

fun fadd :: "fnum \<Rightarrow> fnum \<Rightarrow> fnum" where
  "fadd (Fin a) (Fin b) = Fin (a + b)"
| "fadd NaN _ = NaN"
| "fadd _ NaN = NaN"
| "fadd (Fin a) (Inf s) = Inf s"
| "fadd (Inf s) (Fin b) = Inf s"
| "fadd (Inf s) (Inf t) = (if s = t then Inf s else NaN)"

definition fsub :: "fnum \<Rightarrow> fnum \<Rightarrow> fnum" where
  "fsub a b = fadd a (fneg b)"

fun fmul :: "fnum \<Rightarrow> fnum \<Rightarrow> fnum" where
  "fmul (Fin a) (Fin b) = Fin (a * b)"
| "fmul NaN _ = NaN"
| "fmul _ NaN = NaN"
| "fmul (Fin a) (Inf s) = (if a = 0 then NaN else Inf (s = (0 < a)))"
| "fmul (Inf s) (Fin b) = (if b = 0 then NaN else Inf (s = (0 < b)))"
| "fmul (Inf s) (Inf t) = Inf (s = t)"

text \<open>
  Division of float64 arrays never raises: \<open>0/0\<close> is NaN and \<open>x/0\<close> is an infinity
  with the sign of \<open>x\<close>.
\<close>

fun fdiv :: "fnum \<Rightarrow> fnum \<Rightarrow> fnum" where
  "fdiv (Fin a) (Fin b) =
     (if b \<noteq> 0 then Fin (a / b) else if a = 0 then NaN else Inf (0 < a))"
| "fdiv NaN _ = NaN"
| "fdiv _ NaN = NaN"
| "fdiv (Fin a) (Inf s) = Fin 0"
| "fdiv (Inf s) (Fin b) = Inf (s = (0 \<le> b))"
| "fdiv (Inf s) (Inf t) = NaN"

fun fsqrt :: "fnum \<Rightarrow> fnum" where
  "fsqrt (Fin a) = (if 0 \<le> a then Fin (sqrt a) else NaN)"
| "fsqrt NaN = NaN"
| "fsqrt (Inf s) = (if s then Inf True else NaN)"

text \<open>\<open>fgt a b\<close> is the comparison \<open>a > b\<close>; every comparison with NaN is false.\<close>

fun fgt :: "fnum \<Rightarrow> fnum \<Rightarrow> bool" where
  "fgt (Fin a) (Fin b) = (b < a)"
| "fgt NaN _ = False"
| "fgt _ NaN = False"
| "fgt (Fin a) (Inf s) = (\<not> s)"
| "fgt (Inf s) (Fin b) = s"
| "fgt (Inf s) (Inf t) = (s \<and> \<not> t)"

section \<open>Reductions of a pandas Series\<close>

text \<open>
  \<open>sum\<close>, \<open>mean\<close>, \<open>std\<close>, \<open>min\<close> and \<open>max\<close> of a Series skip the missing values
  (\<open>skipna=True\<close>). The sum of no value is 0, the mean of no value is NaN (0/0), and
  \<open>std\<close> is the sample standard deviation (\<open>ddof=1\<close>): NaN for fewer than two values.
\<close>

definition valid :: "fnum list \<Rightarrow> fnum list" where
  "valid xs = filter (\<lambda>x. x \<noteq> NaN) xs"

definition fsum_all :: "fnum list \<Rightarrow> fnum" where
  "fsum_all xs = foldr fadd xs (Fin 0)"

definition fsum :: "fnum list \<Rightarrow> fnum" where
  "fsum xs = fsum_all (valid xs)"

definition fmean :: "fnum list \<Rightarrow> fnum" where
  "fmean xs = fdiv (fsum xs) (Fin (real (length (valid xs))))"

definition fvar :: "fnum list \<Rightarrow> fnum" where
  "fvar xs =
     (let vs = valid xs; n = length vs in
      if n \<le> 1 then NaN
      else let avg = fmean xs;
               sqr = map (\<lambda>x. fmul (fsub avg x) (fsub avg x)) vs
           in fdiv (fsum_all sqr) (Fin (real (n - 1))))"

definition fstd :: "fnum list \<Rightarrow> fnum" where
  "fstd xs = fsqrt (fvar xs)"



section \<open>utils/scoring.py\<close>



datatype py_error = KeyError string | ValueError string






text \<open>
  The mean and the sample variance of a list of reals, to state what \<open>mean\<close> and
  \<open>std\<close> compute on a column without missing values.
\<close>

definition rmean :: "real list \<Rightarrow> real" where
  "rmean xs = sum_list xs / real (length xs)"

definition rvar :: "real list \<Rightarrow> real" where
  "rvar xs = (\<Sum>x\<leftarrow>xs. (rmean xs - x)\<^sup>2) / real (length xs - 1)"




section \<open>utils/geo.py: the grid\<close>

type_synonym point = "real \<times> real"
type_synonym polygon = "point list"

text \<open>
  \<open>np.arange(start, stop, step)\<close> on floats: the values \<open>start + i * step\<close> for
  \<open>i\<close> below \<open>ceil((stop - start) / step)\<close>; a zero step raises.
\<close>

definition arange :: "real \<Rightarrow> real \<Rightarrow> real \<Rightarrow> py_error + real list" where
  "arange start stop step =
     (if step = 0 then Inl (ValueError ''arange'')
      else Inr (map (\<lambda>i. start + real i * step) [0..<nat \<lceil>(stop - start) / step\<rceil>]))"

definition create_grid_coords_1d :: "real \<Rightarrow> real \<Rightarrow> int \<Rightarrow> nat \<Rightarrow> py_error + real list" where
  "create_grid_coords_1d start stop sz decimals =
     (let rounding_factor = (10::real) ^ decimals;
          start_rounded = of_int \<lfloor>start * rounding_factor\<rfloor> / rounding_factor;
          end_rounded = of_int \<lceil>stop * rounding_factor\<rceil> / rounding_factor
      in arange start_rounded end_rounded (of_int sz))"

text \<open>
  \<open>total_bounds\<close> of a layer: the least and greatest coordinates of its polygons,
  \<open>(min_x, min_y, max_x, max_y)\<close>; a layer without any coordinate has none.
\<close>

definition total_bounds :: "polygon list \<Rightarrow> (real \<times> real \<times> real \<times> real) option" where
  "total_bounds gdf =
     (case concat gdf of
        [] \<Rightarrow> None
      | p # ps \<Rightarrow>
          Some (fold min (map fst ps) (fst p), fold min (map snd ps) (snd p),
                fold max (map fst ps) (fst p), fold max (map snd ps) (snd p)))"

record grid_cell =
  geometry :: polygon
  cell_id :: nat

text \<open>The square emitted for the column coordinate \<open>x\<close> and the row coordinate \<open>y\<close>.\<close>

definition cell_polygon :: "int \<Rightarrow> real \<Rightarrow> real \<Rightarrow> polygon" where
  "cell_polygon size_in_meters x y =
     [(x, y),
      (x + of_int size_in_meters, y),
      (x + of_int size_in_meters, y - of_int size_in_meters),
      (x, y - of_int size_in_meters)]"

text \<open>
  \<open>create_grid\<close>. The geometry backend enters through three parameters: \<open>to_3857\<close>
  and \<open>to_src\<close> reproject a point to EPSG:3857 and back to the CRS of the input layer,
  and \<open>intersects cell gdf\<close> is the predicate of the spatial join of a cell with the
  dissolved input layer.
\<close>

definition create_grid ::
  "(point \<Rightarrow> point) \<Rightarrow> (point \<Rightarrow> point) \<Rightarrow> (polygon \<Rightarrow> polygon list \<Rightarrow> bool)
     \<Rightarrow> polygon list \<Rightarrow> int \<Rightarrow> bool \<Rightarrow> py_error + grid_cell list" where
  "create_grid to_3857 to_src intersects gdf size_in_meters filter_flag =
     (case total_bounds (map (map to_3857) gdf) of
        None \<Rightarrow> Inl (ValueError ''arange'')
      | Some (min_x, min_y, max_x, max_y) \<Rightarrow>
          (case create_grid_coords_1d min_x max_x size_in_meters 2 of
             Inl e \<Rightarrow> Inl e
           | Inr cols \<Rightarrow>
               (case create_grid_coords_1d min_y max_y size_in_meters 2 of
                  Inl e \<Rightarrow> Inl e
                | Inr rows0 \<Rightarrow>
                    let rows = rev rows0;
                        polygons =
                          concat (map (\<lambda>x. map (\<lambda>y. cell_polygon size_in_meters x y) rows) cols);
                        grid =
                          map (\<lambda>(i, p). \<lparr>geometry = map to_src p, cell_id = i\<rparr>)
                            (enumerate 0 polygons)
                    in Inr (if filter_flag
                            then filter (\<lambda>c. intersects (geometry c) gdf) grid
                            else grid))))"

text \<open>A polygon is the axis-parallel square of side \<open>s\<close> with top-left corner \<open>(x, y)\<close>.\<close>

definition is_square :: "real \<Rightarrow> polygon \<Rightarrow> bool" where
  "is_square s p =
     (case p of
        [(x, y), b, c, d] \<Rightarrow> b = (x + s, y) \<and> c = (x + s, y - s) \<and> d = (x, y - s)
      | _ \<Rightarrow> False)"

section \<open>utils/geo.py: reaggregation\<close>

text \<open>
  A source row carries a geometry and its numeric columns, a destination row a geometry
  and the value of the identifier column \<open>dst_id\<close> (the destination layer holds only
  polygons and identifiers). The columns of the source layer are listed in
  \<open>src_columns\<close>; CRSs are EPSG codes.
\<close>

record 'g src_row =
  src_geom :: 'g
  src_vals :: "string \<Rightarrow> fnum"

record 'g src_layer =
  src_crs :: int
  src_columns :: "string list"
  src_rows :: "'g src_row list"





text \<open>
  The rows of \<open>fragment_df\<close> after line 139: the identifier of the destination (NaN,
  here \<open>None\<close>, for a fragment outside every destination polygon), the source columns
  (NaN for a fragment outside every source polygon) and \<open>fragment_area\<close>. The area
  of a geometry is a finite number, so the two area columns hold reals.
\<close>

record frow =
  fr_key :: "nat option"
  fr_vals :: "string \<Rightarrow> fnum"
  fragment_area :: real


text \<open>\<open>groupby(dst_id)\<close> drops the rows without identifier and sorts the groups by key.\<close>

definition group_keys :: "frow list \<Rightarrow> nat list" where
  "group_keys rows = sort (remdups (List.map_filter fr_key rows))"

definition dst_unit_areas :: "frow list \<Rightarrow> (nat \<times> real) list" where
  "dst_unit_areas rows =
     map (\<lambda>k. (k, sum_list (map fragment_area (filter (\<lambda>r. fr_key r = Some k) rows))))
       (group_keys rows)"

text \<open>
  The rows of \<open>fragment_df\<close> after the inner merge with \<open>dst_unit_areas\<close> and the
  division of lines 147 to 149.
\<close>

record mrow =
  m_key :: nat
  m_vals :: "string \<Rightarrow> fnum"
  m_area :: real
  dst_unit_area :: real
  fragment_area_pct :: fnum

definition merge_areas :: "frow list \<Rightarrow> (nat \<times> real) list \<Rightarrow> mrow list" where
  "merge_areas rows areas =
     concat (map (\<lambda>r. case fr_key r of
                         None \<Rightarrow> []
                       | Some k \<Rightarrow>
                           (case map_of areas k of
                              None \<Rightarrow> []
                            | Some A \<Rightarrow>
                                [\<lparr>m_key = k, m_vals = fr_vals r, m_area = fragment_area r,
                                  dst_unit_area = A,
                                  fragment_area_pct = fdiv (Fin (fragment_area r)) (Fin A)\<rparr>])) rows)"






text \<open>
  Lines 140 to 149 together: the frame with \<open>dst_unit_area\<close> and
  \<open>fragment_area_pct\<close>.
\<close>

definition fragment_df_pct :: "frow list \<Rightarrow> mrow list" where
  "fragment_df_pct rows = merge_areas rows (dst_unit_areas rows)"









text \<open>
  The layers of the scenario of reaggregation: one source polygon of two unit squares
  with \<open>pop = 100\<close>, and two destination cells of one unit square each that it covers.
\<close>

definition pop_100 :: "string \<Rightarrow> fnum" where
  "pop_100 = (\<lambda>v. if v = ''pop'' then Fin 100 else NaN)"



section \<open>event-siting.py\<close>

subsection \<open>Selection of the tracts of interest\<close>

text \<open>A row of \<open>tract_data\<close>: the tract and its value in the housing-loss column.\<close>

record tract_row =
  geoid :: string
  hloss :: fnum

text \<open>\<open>df[mask]\<close> for a boolean Series: the rows whose entry of the mask is true.\<close>

definition getitem_mask :: "bool list \<Rightarrow> tract_row list \<Rightarrow> tract_row list" where
  "getitem_mask msk rows = map snd (filter fst (zip msk rows))"

text \<open>
  \<open>df[b]\<close> for a single boolean \<open>b\<close>: a key that is no mask is looked up among the
  column labels, and \<open>tract_data\<close> has no column labelled \<open>True\<close> or \<open>False\<close>.
\<close>

definition getitem_scalar :: "bool \<Rightarrow> tract_row list \<Rightarrow> py_error + tract_row list" where
  "getitem_scalar b rows = Inl (KeyError (if b then ''True'' else ''False''))"

definition get_tracts_of_interest ::
  "tract_row list \<Rightarrow> real option \<Rightarrow> real option \<Rightarrow> py_error + tract_row list" where
  "get_tracts_of_interest tract_data min_mean_ratio min_zscore =
     (let neither_provided = (min_mean_ratio = None \<and> min_zscore = None);
          both_provided = (min_mean_ratio \<noteq> None \<and> min_zscore \<noteq> None)
      in if neither_provided \<or> both_provided
         then Inl (ValueError ''Please provide either min_mean_ratio or min_zscore.'')
         else
           let hloss_mean = fmean (map hloss tract_data) in
           (case min_mean_ratio of
              Some k \<Rightarrow>
                let mean_ratio = map (\<lambda>r. fdiv (hloss r) hloss_mean) tract_data
                in Inr (getitem_mask (map (\<lambda>q. fgt q (Fin k)) mean_ratio) tract_data)
            | None \<Rightarrow>
                let hloss_std = fstd (map hloss tract_data);
                    zscore = fdiv hloss_mean hloss_std
                in getitem_scalar (fgt zscore (Fin (the min_zscore))) tract_data))"

text \<open>
  The selection the documentation of the z-score strategy describes: the tracts whose
  own z-score, \<open>(value - mean) / std\<close>, exceeds the threshold.
\<close>

definition zscore_selection_documented :: "tract_row list \<Rightarrow> real \<Rightarrow> tract_row list" where
  "zscore_selection_documented tract_data z =
     (let hloss_mean = fmean (map hloss tract_data);
          hloss_std = fstd (map hloss tract_data)
      in filter (\<lambda>r. fgt (fdiv (fsub (hloss r) hloss_mean) hloss_std) (Fin z)) tract_data)"

subsection \<open>Normalisation of the projections\<close>

text \<open>
  The layers are objects on a heap, addressed by their position; the model holds the
  addresses of its three layers. A layer has a name and a CRS (an EPSG code, or none).
  \<open>to_crs\<close> does not change the layer it is called on: it allocates the reprojected
  layer and returns its address, and raises for a layer without CRS. The messages
  printed are collected in \<open>stdout\<close>.
\<close>

record gdf_obj =
  obj_name :: string
  obj_crs :: "int option"

record model_state =
  self_tracts :: nat
  self_pois :: nat
  self_grid :: nat
  heap :: "gdf_obj list"
  stdout :: "(string \<times> int option \<times> int) list"

definition gdf_to_crs :: "model_state \<Rightarrow> nat \<Rightarrow> int \<Rightarrow> py_error + model_state \<times> nat" where
  "gdf_to_crs s a target_epsg =
     (case obj_crs (heap s ! a) of
        None \<Rightarrow> Inl (ValueError ''Cannot transform naive geometries'')
      | Some _ \<Rightarrow>
          Inr (s\<lparr>heap := heap s @ [(heap s ! a)\<lparr>obj_crs := Some target_epsg\<rparr>]\<rparr>,
               length (heap s)))"

text \<open>
  The loop of \<open>_standardize_projections\<close>; \<open>gdf\<close> is the loop variable, an address.
  The address \<open>to_crs\<close> returns is bound to it and not used again.
\<close>

fun standardize_projections_loop ::
  "int \<Rightarrow> nat list \<Rightarrow> model_state \<Rightarrow> model_state \<times> py_error option" where
  "standardize_projections_loop target_epsg [] s = (s, None)"
| "standardize_projections_loop target_epsg (gdf # rest) s =
     (let src_crs = obj_crs (heap s ! gdf) in
      if src_crs \<noteq> Some target_epsg
      then
        (let s1 = s\<lparr>stdout := stdout s @ [(obj_name (heap s ! gdf), src_crs, target_epsg)]\<rparr>
         in case gdf_to_crs s1 gdf target_epsg of
              Inl e \<Rightarrow> (s1, Some e)
            | Inr (s2, gdf') \<Rightarrow> standardize_projections_loop target_epsg rest s2)
      else standardize_projections_loop target_epsg rest s)"

definition standardize_projections :: "model_state \<Rightarrow> int \<Rightarrow> model_state \<times> py_error option" where
  "standardize_projections s target_epsg =
     standardize_projections_loop target_epsg [self_tracts s, self_pois s, self_grid s] s"

section \<open>Properties of the composite scorer\<close>




















subsection \<open>The z-score of one entry\<close>

lemma valid_Fin: "valid (map Fin xs) = map Fin xs"
  by (simp add: valid_def filter_id_conv)

lemma fsum_all_Fin: "fsum_all (map Fin xs) = Fin (sum_list xs)"
  by (induction xs) (simp_all add: fsum_all_def)

lemma fmean_Fin: "fmean (map Fin xs) = (if xs = [] then NaN else Fin (rmean xs))"
  by (simp add: fmean_def fsum_def valid_Fin fsum_all_Fin rmean_def)

lemma fvar_Fin: "2 \<le> length xs \<Longrightarrow> fvar (map Fin xs) = Fin (rvar xs)"
proof -
  assume n: "2 \<le> length xs"
  then have ne: "xs \<noteq> []" by auto
  have "map (\<lambda>x. fmul (fsub (Fin (rmean xs)) x) (fsub (Fin (rmean xs)) x)) (map Fin xs)
        = map Fin (map (\<lambda>x. (rmean xs - x)\<^sup>2) xs)"
    by (simp add: fsub_def power2_eq_square)
  then show ?thesis
    using n ne by (simp add: fvar_def valid_Fin fmean_Fin Let_def fsum_all_Fin rvar_def del: map_map)
qed

lemma rvar_nonneg: "0 \<le> rvar xs"
  unfolding rvar_def by (intro divide_nonneg_nonneg sum_list_nonneg) auto

lemma fstd_Fin: "2 \<le> length xs \<Longrightarrow> fstd (map Fin xs) = Fin (sqrt (rvar xs))"
  by (simp add: fstd_def fvar_Fin rvar_nonneg)

lemma fstd_Fin_short: "length xs \<le> 1 \<Longrightarrow> fstd (map Fin xs) = NaN"
  by (simp add: fstd_def fvar_def valid_Fin Let_def)













subsection \<open>The score of a row as a function of one entry\<close>





lemma fstd_Fin_nonzero:
  assumes "fstd (map Fin ys) = Fin s" "s \<noteq> 0"
  shows "2 \<le> length ys \<and> rvar ys \<noteq> 0"
proof -
  have "2 \<le> length ys"
  proof (rule ccontr)
    assume "\<not> 2 \<le> length ys"
    then have "length ys \<le> 1" by simp
    from fstd_Fin_short[OF this] assms(1) show False by simp
  qed
  moreover from this assms have "rvar ys \<noteq> 0" by (auto simp: fstd_Fin)
  ultimately show ?thesis by blast
qed










subsection \<open>Min-max rescaling of one entry\<close>












subsection \<open>Direction of a negative column\<close>
















section \<open>Properties of the grid builder\<close>

lemma is_square_cell_polygon: "is_square (of_int sz) (cell_polygon sz x y)"
  by (simp add: is_square_def cell_polygon_def)

lemma create_grid_unfiltered:
  assumes "create_grid to_3857 to_src isect gdf sz False = Inr grid"
  shows "\<exists>polygons.
           grid = map (\<lambda>(i, p). \<lparr>geometry = map to_src p, cell_id = i\<rparr>) (enumerate 0 polygons)
           \<and> (\<forall>p \<in> set polygons. \<exists>x y. p = cell_polygon sz x y)"
proof -
  from assms obtain cs rs where
    g: "grid = map (\<lambda>(i, p). \<lparr>geometry = map to_src p, cell_id = i\<rparr>)
                 (enumerate 0 (concat (map (\<lambda>x. map (cell_polygon sz x) (rev rs)) cs)))"
    by (auto simp: create_grid_def Let_def split: option.splits sum.splits prod.splits)
  have "\<forall>p \<in> set (concat (map (\<lambda>x. map (cell_polygon sz x) (rev rs)) cs)).
          \<exists>x y. p = cell_polygon sz x y"
    by auto
  with g show ?thesis by blast
qed

lemma cell_ids_enumerate:
  "map cell_id (map (\<lambda>(i, p). \<lparr>geometry = f p, cell_id = i\<rparr>) (enumerate n ps))
     = [n..<n + length ps]"
  by (induction ps arbitrary: n) (simp_all add: upt_rec)

text \<open>
  Claim C7: for the reference polygon spanning \<open>x\<close> in \<open>[0, 2000]\<close> and \<open>y\<close> in
  \<open>[0, 1000]\<close>, given in EPSG:3857 (both reprojections are the identity), and the cell
  size 1000, \<open>create_grid\<close> without filtering emits exactly two cells, numbered 0 and 1.
  For every input, the cell ids of the unfiltered grid are \<open>0..N-1\<close> in emission order,
  and every cell is a square of the cell size in the CRS the grid is built in.
\<close>

theorem create_grid_cells:
  "create_grid id id isect [[(0, 0), (2000, 0), (2000, 1000), (0, 1000)]] 1000 False =
     Inr [\<lparr>geometry = [(0, 0), (1000, 0), (1000, - 1000), (0, - 1000)], cell_id = 0\<rparr>,
          \<lparr>geometry = [(1000, 0), (2000, 0), (2000, - 1000), (1000, - 1000)], cell_id = 1\<rparr>]
   \<and> (\<forall>to_3857 to_src gdf sz grid.
        create_grid to_3857 to_src isect gdf sz False = Inr grid \<longrightarrow>
          map cell_id grid = [0..<length grid]
          \<and> (to_src = id \<longrightarrow> (\<forall>c \<in> set grid. is_square (of_int sz) (geometry c))))"
proof (intro conjI allI impI)
  show "create_grid id id isect [[(0, 0), (2000, 0), (2000, 1000), (0, 1000)]] 1000 False =
     Inr [\<lparr>geometry = [(0, 0), (1000, 0), (1000, - 1000), (0, - 1000)], cell_id = 0\<rparr>,
          \<lparr>geometry = [(1000, 0), (2000, 0), (2000, - 1000), (1000, - 1000)], cell_id = 1\<rparr>]"
    by (simp add: create_grid_def total_bounds_def create_grid_coords_1d_def arange_def
        cell_polygon_def upt_rec)
next
  fix to_3857 to_src gdf sz grid
  assume a: "create_grid to_3857 to_src isect gdf sz False = Inr grid"
  from create_grid_unfiltered[OF a] obtain polygons where
    g: "grid = map (\<lambda>(i, p). \<lparr>geometry = map to_src p, cell_id = i\<rparr>) (enumerate 0 polygons)"
    and p: "\<forall>p \<in> set polygons. \<exists>x y. p = cell_polygon sz x y" by blast
  show "map cell_id grid = [0..<length grid]"
    unfolding g using cell_ids_enumerate[of "map to_src" 0 polygons] by simp
  assume "to_src = id"
  show "\<forall>c \<in> set grid. is_square (of_int sz) (geometry c)"
  proof
    fix c assume "c \<in> set grid"
    with g obtain i q where "(i, q) \<in> set (enumerate 0 polygons)"
      and c: "c = \<lparr>geometry = map to_src q, cell_id = i\<rparr>" by auto
    then have "q \<in> set polygons" by (auto simp: in_set_enumerate_eq)
    with p obtain x y where "q = cell_polygon sz x y" by blast
    with c \<open>to_src = id\<close> show "is_square (of_int sz) (geometry c)"
      by (simp add: is_square_cell_polygon)
  qed
qed

theorem create_grid_cells_witness:
  "create_grid id id (\<lambda>_ _. True) [[(0, 0), (2000, 0), (2000, 1000), (0, 1000)]] 1000 False =
     Inr [\<lparr>geometry = [(0, 0), (1000, 0), (1000, - 1000), (0, - 1000)], cell_id = 0\<rparr>,
          \<lparr>geometry = [(1000, 0), (2000, 0), (2000, - 1000), (1000, - 1000)], cell_id = 1\<rparr>]
   \<and> map cell_id
        [\<lparr>geometry = [(0, 0), (1000, 0), (1000, - 1000), (0, - 1000)], cell_id = 0\<rparr>,
         \<lparr>geometry = [(1000, 0), (2000, 0), (2000, - 1000), (1000, - 1000)], cell_id = 1\<rparr>]
       = [0, 1]
   \<and> is_square 1000 [(0, 0), (1000, 0), (1000, - 1000), (0, - 1000)]
   \<and> is_square 1000 [(1000, 0), (2000, 0), (2000, - 1000), (1000, - 1000)]"
proof -
  let ?grid = "[\<lparr>geometry = [(0, 0), (1000, 0), (1000, - 1000), (0, - 1000)], cell_id = 0\<rparr>,
         \<lparr>geometry = [(1000, 0), (2000, 0), (2000, - 1000), (1000, - 1000)], cell_id = 1\<rparr>]"
  note t = create_grid_cells[of "\<lambda>_ _. True"]
  from t have e: "create_grid id id (\<lambda>_ _. True) [[(0, 0), (2000, 0), (2000, 1000), (0, 1000)]]
                    1000 False = Inr ?grid"
    by (rule conjunct1)
  from t have "create_grid id id (\<lambda>_ _. True) [[(0, 0), (2000, 0), (2000, 1000), (0, 1000)]]
                    1000 False = Inr ?grid \<longrightarrow>
          map cell_id ?grid = [0..<length ?grid]
          \<and> (id = (id :: point \<Rightarrow> point)
               \<longrightarrow> (\<forall>c \<in> set ?grid. is_square (of_int 1000) (geometry c)))"
    by blast
  with e show ?thesis by (simp add: upt_rec)
qed

section \<open>Properties of the selection of tracts\<close>

lemma sqrt_81_4: "sqrt (81 / 4) = 9 / 2"
  by (rule real_sqrt_unique) (simp_all add: power2_eq_square)

lemma hloss_mean_example: "fmean [Fin 1, Fin 1, Fin 1, Fin 10] = Fin (13 / 4)"
  by (simp add: fmean_def fsum_def fsum_all_def valid_def)

lemma hloss_std_example: "fstd [Fin 1, Fin 1, Fin 1, Fin 10] = Fin (9 / 2)"
  by (simp add: fstd_def fvar_def hloss_mean_example fsub_def fsum_all_def valid_def Let_def sqrt_81_4)

text \<open>
  Claim C4 at the tract values \<open>[1, 1, 1, 10]\<close> and the threshold 1 (mean 3.25, standard
  deviation 4.5): the z-score strategy of the code compares the single number
  \<open>mean / std\<close> with the threshold and indexes the frame with the resulting boolean,
  which raises KeyError; the selection the documentation describes keeps the tract with
  value 10, whose z-score is 1.5.
\<close>

theorem zscore_selection_divergence:
  "get_tracts_of_interest
     [\<lparr>geoid = ''A'', hloss = Fin 1\<rparr>, \<lparr>geoid = ''B'', hloss = Fin 1\<rparr>,
      \<lparr>geoid = ''C'', hloss = Fin 1\<rparr>, \<lparr>geoid = ''D'', hloss = Fin 10\<rparr>] None (Some 1)
     = Inl (KeyError ''False'')
   \<and> zscore_selection_documented
     [\<lparr>geoid = ''A'', hloss = Fin 1\<rparr>, \<lparr>geoid = ''B'', hloss = Fin 1\<rparr>,
      \<lparr>geoid = ''C'', hloss = Fin 1\<rparr>, \<lparr>geoid = ''D'', hloss = Fin 10\<rparr>] 1
     = [\<lparr>geoid = ''D'', hloss = Fin 10\<rparr>]"
  by (simp add: get_tracts_of_interest_def zscore_selection_documented_def getitem_scalar_def
      hloss_mean_example hloss_std_example fsub_def)

section \<open>Properties of the projection step\<close>

lemma standardize_projections_loop_frame:
  "standardize_projections_loop t as s = (s', e) \<Longrightarrow>
     self_tracts s' = self_tracts s \<and> self_pois s' = self_pois s \<and> self_grid s' = self_grid s
     \<and> (\<exists>new. heap s' = heap s @ new)"
proof (induction as arbitrary: s)
  case Nil
  then show ?case by simp
next
  case (Cons a as)
  show ?case
  proof (cases "obj_crs (heap s ! a) = Some t")
    case True
    with Cons.prems have "standardize_projections_loop t as s = (s', e)" by simp
    from Cons.IH[OF this] show ?thesis .
  next
    case False
    define s1 where
      "s1 = s\<lparr>stdout := stdout s @ [(obj_name (heap s ! a), obj_crs (heap s ! a), t)]\<rparr>"
    show ?thesis
    proof (cases "gdf_to_crs s1 a t")
      case (Inl err)
      with Cons.prems False have "s' = s1" by (simp add: Let_def s1_def)
      then show ?thesis by (simp add: s1_def)
    next
      case (Inr r)
      obtain s2 g where r: "r = (s2, g)" by (cases r)
      from Inr r Cons.prems False have "standardize_projections_loop t as s2 = (s', e)"
        by (simp add: Let_def s1_def)
      from Cons.IH[OF this] have 1:
        "self_tracts s' = self_tracts s2 \<and> self_pois s' = self_pois s2
         \<and> self_grid s' = self_grid s2 \<and> (\<exists>new. heap s' = heap s2 @ new)" .
      from Inr r have 2:
        "self_tracts s2 = self_tracts s \<and> self_pois s2 = self_pois s
         \<and> self_grid s2 = self_grid s \<and> (\<exists>new. heap s2 = heap s @ new)"
        by (auto simp: gdf_to_crs_def s1_def split: option.splits)
      from 1 2 show ?thesis by auto
    qed
  qed
qed

text \<open>
  Claim C10: \<open>_standardize_projections\<close> never changes the layers of the model. For
  every state and target CRS, whether the call returns or raises, the attributes
  \<open>tracts\<close>, \<open>pois\<close> and \<open>grid\<close> hold the addresses they held before, and every object
  that existed before the call is unchanged, so each layer has the CRS it had; the
  reprojected layers are new objects that only the loop variable refers to.
\<close>

theorem standardize_projections_keeps_layers:
  "self_tracts (fst (standardize_projections s t)) = self_tracts s \<and>
   self_pois (fst (standardize_projections s t)) = self_pois s \<and>
   self_grid (fst (standardize_projections s t)) = self_grid s \<and>
   take (length (heap s)) (heap (fst (standardize_projections s t))) = heap s \<and>
   (a < length (heap s) \<longrightarrow>
      obj_crs (heap (fst (standardize_projections s t)) ! a) = obj_crs (heap s ! a))"
proof -
  obtain s' e where r: "standardize_projections s t = (s', e)"
    by (cases "standardize_projections s t")
  then have "standardize_projections_loop t [self_tracts s, self_pois s, self_grid s] s = (s', e)"
    by (simp add: standardize_projections_def)
  from standardize_projections_loop_frame[OF this] r show ?thesis
    by (auto simp: nth_append)
qed

theorem standardize_projections_keeps_layers_witness:
  "fst (standardize_projections
     \<lparr>self_tracts = 0, self_pois = 1, self_grid = 2,
      heap = [\<lparr>obj_name = ''census_tracts'', obj_crs = Some 4269\<rparr>,
              \<lparr>obj_name = ''pois'', obj_crs = Some 4326\<rparr>,
              \<lparr>obj_name = ''grid'', obj_crs = Some 3857\<rparr>],
      stdout = []\<rparr> 4326)
   = \<lparr>self_tracts = 0, self_pois = 1, self_grid = 2,
      heap = [\<lparr>obj_name = ''census_tracts'', obj_crs = Some 4269\<rparr>,
              \<lparr>obj_name = ''pois'', obj_crs = Some 4326\<rparr>,
              \<lparr>obj_name = ''grid'', obj_crs = Some 3857\<rparr>,
              \<lparr>obj_name = ''census_tracts'', obj_crs = Some 4326\<rparr>,
              \<lparr>obj_name = ''grid'', obj_crs = Some 4326\<rparr>],
      stdout = [(''census_tracts'', Some 4269, 4326), (''grid'', Some 3857, 4326)]\<rparr>
   \<and> obj_crs (heap (fst (standardize_projections
     \<lparr>self_tracts = 0, self_pois = 1, self_grid = 2,
      heap = [\<lparr>obj_name = ''census_tracts'', obj_crs = Some 4269\<rparr>,
              \<lparr>obj_name = ''pois'', obj_crs = Some 4326\<rparr>,
              \<lparr>obj_name = ''grid'', obj_crs = Some 3857\<rparr>],
      stdout = []\<rparr> 4326)) ! 0) = Some 4269"
  using standardize_projections_keeps_layers[of
     "\<lparr>self_tracts = 0, self_pois = 1, self_grid = 2,
      heap = [\<lparr>obj_name = ''census_tracts'', obj_crs = Some 4269\<rparr>,
              \<lparr>obj_name = ''pois'', obj_crs = Some 4326\<rparr>,
              \<lparr>obj_name = ''grid'', obj_crs = Some 3857\<rparr>],
      stdout = []\<rparr>" 4326 0]
  by (simp add: standardize_projections_def gdf_to_crs_def Let_def)

section \<open>Properties of the reaggregation\<close>

lemma fsum_Fin: "fsum (map (\<lambda>x. Fin (f x)) xs) = Fin (\<Sum>x\<leftarrow>xs. f x)"
  by (induction xs) (simp_all add: fsum_def valid_def fsum_all_def)


lemma group_keys_set: "set (group_keys rows) = {k. \<exists>r \<in> set rows. fr_key r = Some k}"
  by (auto simp: group_keys_def List.map_filter_def intro!: image_eqI)

lemma map_of_dst_unit_areas:
  "map_of (dst_unit_areas rows) k =
     (if \<exists>r \<in> set rows. fr_key r = Some k
      then Some (sum_list (map fragment_area (filter (\<lambda>r. fr_key r = Some k) rows)))
      else None)"
proof -
  have "map_of (map (\<lambda>k. (k, g k)) ks) k = (if k \<in> set ks then Some (g k) else None)"
    for g :: "nat \<Rightarrow> real" and ks
    by (induction ks) auto
  then show ?thesis
    unfolding dst_unit_areas_def by (simp add: group_keys_set)
qed

text \<open>The rows of one destination in the frame with the shares.\<close>

lemma fragment_df_pct_group:
  "filter (\<lambda>m. m_key m = k) (fragment_df_pct rows) =
     map (\<lambda>r. \<lparr>m_key = k, m_vals = fr_vals r, m_area = fragment_area r,
                dst_unit_area = sum_list (map fragment_area (filter (\<lambda>r. fr_key r = Some k) rows)),
                fragment_area_pct = fdiv (Fin (fragment_area r))
                    (Fin (sum_list (map fragment_area (filter (\<lambda>r. fr_key r = Some k) rows))))\<rparr>)
       (filter (\<lambda>r. fr_key r = Some k) rows)"
  (is "_ = map ?mk _")
proof -
  have "filter (\<lambda>m. m_key m = k) (merge_areas rs (dst_unit_areas rows)) =
          map ?mk (filter (\<lambda>r. fr_key r = Some k) rs)" if "set rs \<subseteq> set rows" for rs
    using that
  proof (induction rs)
    case Nil
    then show ?case by (simp add: merge_areas_def)
  next
    case (Cons r rs)
    then have ih: "filter (\<lambda>m. m_key m = k) (merge_areas rs (dst_unit_areas rows)) =
          map ?mk (filter (\<lambda>r. fr_key r = Some k) rs)" by simp
    have split: "merge_areas (r # rs) A = merge_areas [r] A @ merge_areas rs A" for A
      by (simp add: merge_areas_def)
    from Cons.prems have rin: "r \<in> set rows" by simp
    show ?case
    proof (cases "fr_key r")
      case None
      then show ?thesis using ih by (simp add: split) (simp add: merge_areas_def)
    next
      case (Some j)
      with rin have "\<exists>r \<in> set rows. fr_key r = Some j" by blast
      then have "map_of (dst_unit_areas rows) j =
                   Some (sum_list (map fragment_area (filter (\<lambda>r. fr_key r = Some j) rows)))"
        by (simp add: map_of_dst_unit_areas)
      with Some show ?thesis using ih by (simp add: split) (auto simp add: merge_areas_def)
    qed
  qed
  then show ?thesis by (simp add: fragment_df_pct_def)
qed

lemma fragment_df_pct_member:
  assumes "m \<in> set (fragment_df_pct rows)"
  shows "\<exists>r \<in> set rows. fr_key r = Some (m_key m) \<and>
           dst_unit_area m = sum_list (map fragment_area (filter (\<lambda>r. fr_key r = Some (m_key m)) rows))
           \<and> fragment_area_pct m = fdiv (Fin (fragment_area r)) (Fin (dst_unit_area m))"
proof -
  from assms have "m \<in> set (filter (\<lambda>m'. m_key m' = m_key m) (fragment_df_pct rows))" by simp
  then obtain r where "r \<in> set rows" "fr_key r = Some (m_key m)"
    and "m = \<lparr>m_key = m_key m, m_vals = fr_vals r, m_area = fragment_area r,
                dst_unit_area = sum_list (map fragment_area (filter (\<lambda>r. fr_key r = Some (m_key m)) rows)),
                fragment_area_pct = fdiv (Fin (fragment_area r))
                    (Fin (sum_list (map fragment_area (filter (\<lambda>r. fr_key r = Some (m_key m)) rows))))\<rparr>"
    unfolding fragment_df_pct_group by auto
  then show ?thesis
    by (intro bexI[of _ r]) (cases m, simp del: fdiv.simps)+
qed

lemma sum_list_divide: "(\<Sum>x\<leftarrow>xs. f x / c) = (\<Sum>x\<leftarrow>xs. f x) / (c::real)"
  by (induction xs) (simp_all add: add_divide_distrib)

text \<open>
  Claim C2: in the frame of \<open>reaggregate\<close> with the shares, for every row \<open>m\<close>
  whose \<open>dst_unit_area\<close> is not zero, the shares \<open>fragment_area_pct\<close> of the rows
  grouped under the identifier of \<open>m\<close> sum to 1.
\<close>

theorem fragment_area_pct_sum:
  "m \<in> set (fragment_df_pct rows) \<and> dst_unit_area m \<noteq> 0 \<longrightarrow>
     fsum (map fragment_area_pct (filter (\<lambda>m'. m_key m' = m_key m) (fragment_df_pct rows))) = Fin 1"
proof
  assume a: "m \<in> set (fragment_df_pct rows) \<and> dst_unit_area m \<noteq> 0"
  let ?G = "filter (\<lambda>r. fr_key r = Some (m_key m)) rows"
  let ?A = "sum_list (map fragment_area ?G)"
  from a fragment_df_pct_member[of m rows] have A: "dst_unit_area m = ?A" by blast
  with a have nz: "?A \<noteq> 0" by simp
  have "map fragment_area_pct (filter (\<lambda>m'. m_key m' = m_key m) (fragment_df_pct rows))
          = map (\<lambda>r. Fin (fragment_area r / ?A)) ?G"
    unfolding fragment_df_pct_group using nz by (simp add: comp_def)
  then have "fsum (map fragment_area_pct (filter (\<lambda>m'. m_key m' = m_key m) (fragment_df_pct rows)))
          = Fin (\<Sum>r\<leftarrow>?G. fragment_area r / ?A)"
    by (simp add: fsum_Fin)
  also have "(\<Sum>r\<leftarrow>?G. fragment_area r / ?A) = ?A / ?A"
    by (simp add: sum_list_divide)
  finally show "fsum (map fragment_area_pct (filter (\<lambda>m'. m_key m' = m_key m) (fragment_df_pct rows))) = Fin 1"
    using nz by simp
qed



















theorem fragment_area_pct_sum_witness:
  "\<lparr>m_key = 0, m_vals = pop_100, m_area = 1, dst_unit_area = 4, fragment_area_pct = Fin (1 / 4)\<rparr>
     \<in> set (fragment_df_pct [\<lparr>fr_key = Some 0, fr_vals = pop_100, fragment_area = 1\<rparr>,
                              \<lparr>fr_key = Some 0, fr_vals = (\<lambda>_. NaN), fragment_area = 3\<rparr>,
                              \<lparr>fr_key = None, fr_vals = pop_100, fragment_area = 5\<rparr>])
   \<and> fsum (map fragment_area_pct (filter (\<lambda>m'. m_key m' = 0)
        (fragment_df_pct [\<lparr>fr_key = Some 0, fr_vals = pop_100, fragment_area = 1\<rparr>,
                          \<lparr>fr_key = Some 0, fr_vals = (\<lambda>_. NaN), fragment_area = 3\<rparr>,
                          \<lparr>fr_key = None, fr_vals = pop_100, fragment_area = 5\<rparr>]))) = Fin 1"
proof -
  let ?rows = "[\<lparr>fr_key = Some 0, fr_vals = pop_100, fragment_area = 1\<rparr>,
                \<lparr>fr_key = Some 0, fr_vals = (\<lambda>_. NaN), fragment_area = 3\<rparr>,
                \<lparr>fr_key = None, fr_vals = pop_100, fragment_area = 5\<rparr>]"
  let ?m = "\<lparr>m_key = 0, m_vals = pop_100, m_area = 1, dst_unit_area = 4,
             fragment_area_pct = Fin (1 / 4)\<rparr>"
  have e: "fragment_df_pct ?rows =
             [?m, \<lparr>m_key = 0, m_vals = (\<lambda>_. NaN), m_area = 3, dst_unit_area = 4,
                    fragment_area_pct = Fin (3 / 4)\<rparr>]"
    by (simp add: fragment_df_pct_def dst_unit_areas_def group_keys_def List.map_filter_def
        merge_areas_def)
  then have "?m \<in> set (fragment_df_pct ?rows) \<and> dst_unit_area ?m \<noteq> 0" by simp
  with fragment_area_pct_sum[of ?m ?rows] show ?thesis by simp
qed











end
